theory Spec2Isabelle
  imports Main
begin

section \<open>Exceptions, effects and the world outside the module\<close>

text \<open>
  The module \<^verbatim>\<open>tasksB.py\<close> is a set of task functions, each guarded by the
  path check \<^verbatim>\<open>B12\<close>. Every task calls into a library (requests, sqlite3,
  duckdb, bs4, PIL, markdown, pandas) and into the filesystem. Those calls are
  not part of the module: they are operations on an external world of type
  \<open>'w\<close>, supplied by an environment record, and every call is recorded as an
  event so that "the task invoked its delegate" and "the task wrote a file"
  are statements about the event trace.

  A Python exception is a value: its class name and the text that \<^verbatim>\<open>str(e)\<close>
  returns. Only classes deriving from \<^verbatim>\<open>Exception\<close> are modelled; the
  asynchronous \<^verbatim>\<open>KeyboardInterrupt\<close> and \<^verbatim>\<open>SystemExit\<close>, which
  \<^verbatim>\<open>except Exception\<close> does not catch, are outside the model.
  \<^verbatim>\<open>HTTPException\<close> is FastAPI's exception carrying a status code and a
  detail. Python strings are modelled by \<open>string\<close>.
\<close>

datatype exn =
    Exn string string
  | HTTPException nat string

fun str_exn :: "exn \<Rightarrow> string" where
  "str_exn (Exn cls msg) = msg"
| "str_exn (HTTPException status detail) = detail"

datatype engine = Sqlite3 | DuckDB

text \<open>
  JSON documents as \<^verbatim>\<open>json.dump\<close> writes them. A float is carried, never
  computed with: a finite double is \<open>m * 2 ^ e\<close> for a mantissa and an
  exponent, or it is an infinity or not a number.
\<close>

datatype pyfloat = Finite int int | PosInf | NegInf | NaN

datatype json =
    JNull
  | JBool bool
  | JInt int
  | JFloat pyfloat
  | JStr string
  | JArr "json list"
  | JObj "(string \<times> json) list"

datatype content =
    Text string
  | Bytes "nat list"
  | JsonIndent2 json
  | JsonPrefix

datatype event =
    LogInfo string
  | LogError string
  | HttpGet string "(string \<times> string) list option" nat
  | MakeDirs string
  | OpenFile string string
  | WriteFile string content
  | ReadFile string
  | DbConnect engine string
  | DbCursor
  | DbExecute string
  | DbFetchAll
  | DbDescription
  | DbClose
  | ImportModule string
  | SoupParse string
  | SoupSelect string
  | DatetimeNow
  | ImageOpen string
  | ImageResize "int list"
  | ImageSave string "string option" "int option"
  | MarkdownRender "string list"
  | ReadCsv string

record 'w state =
  world :: 'w
  trace :: "event list"

type_synonym ('a, 'w) io = "'w state \<Rightarrow> (exn + 'a) \<times> 'w state"

definition io_return :: "'a \<Rightarrow> ('a, 'w) io" where
  "io_return x s = (Inr x, s)"

definition io_raise :: "exn \<Rightarrow> ('a, 'w) io" where
  "io_raise e s = (Inl e, s)"

definition io_lift :: "exn + 'a \<Rightarrow> ('a, 'w) io" where
  "io_lift r s = (r, s)"

definition io_bind :: "('a, 'w) io \<Rightarrow> ('a \<Rightarrow> ('b, 'w) io) \<Rightarrow> ('b, 'w) io" where
  "io_bind m f s = (case m s of (Inl e, s') \<Rightarrow> (Inl e, s') | (Inr x, s') \<Rightarrow> f x s')"

text \<open>\<^verbatim>\<open>try: m  except Exception as e: h(e)\<close>\<close>

definition try_except :: "('a, 'w) io \<Rightarrow> (exn \<Rightarrow> ('a, 'w) io) \<Rightarrow> ('a, 'w) io" where
  "try_except m h s = (case m s of (Inl e, s') \<Rightarrow> h e s' | (Inr x, s') \<Rightarrow> (Inr x, s'))"

text \<open>A call out of the module: the event is recorded, then the world answers.\<close>

definition ext :: "event \<Rightarrow> ('w \<Rightarrow> (exn + 'a) \<times> 'w) \<Rightarrow> ('a, 'w) io" where
  "ext ev f s = (case f (world s) of (r, w') \<Rightarrow> (r, s\<lparr>world := w', trace := trace s @ [ev]\<rparr>))"

definition logger_error :: "string \<Rightarrow> (unit, 'w) io" where
  "logger_error msg s = (Inr (), s\<lparr>trace := trace s @ [LogError msg]\<rparr>)"

definition logger_info :: "string \<Rightarrow> (unit, 'w) io" where
  "logger_info msg s = (Inr (), s\<lparr>trace := trace s @ [LogInfo msg]\<rparr>)"

fun is_log :: "event \<Rightarrow> bool" where
  "is_log (LogInfo m) = True"
| "is_log (LogError m) = True"
| "is_log ev = False"

section \<open>Strings and paths\<close>

definition startswith :: "string \<Rightarrow> string \<Rightarrow> bool" where
  "startswith s p = (take (length p) s = p)"

definition endswith :: "string \<Rightarrow> string \<Rightarrow> bool" where
  "endswith s p = (length p \<le> length s \<and> drop (length s - length p) s = p)"

text \<open>\<^verbatim>\<open>s.split(c)\<close>\<close>

fun split_on :: "char \<Rightarrow> string \<Rightarrow> string list" where
  "split_on c [] = [[]]"
| "split_on c (x # xs) =
     (if x = c then [] # split_on c xs
      else (case split_on c xs of [] \<Rightarrow> [[x]] | w # ws \<Rightarrow> (x # w) # ws))"

text \<open>\<^verbatim>\<open>sep.join(xs)\<close>\<close>

fun join :: "string \<Rightarrow> string list \<Rightarrow> string" where
  "join sep [] = []"
| "join sep [x] = x"
| "join sep (x # y # ys) = x @ sep @ join sep (y # ys)"

text \<open>
  \<^verbatim>\<open>pathlib.Path\<close> on a POSIX system. A path is parsed into a root (empty,
  \<^verbatim>\<open>/\<close>, or \<^verbatim>\<open>//\<close> for exactly two leading slashes) and the components
  between slashes, with empty components and \<^verbatim>\<open>.\<close> dropped;
  \<^verbatim>\<open>..\<close> is kept. \<^verbatim>\<open>str(path)\<close> joins them again; the empty path is
  \<^verbatim>\<open>.\<close>.
\<close>

record ppath =
  p_root :: string
  p_parts :: "string list"

definition splitroot :: "string \<Rightarrow> string \<times> string" where
  "splitroot p =
     (if take 1 p \<noteq> ''/'' then ('''', p)
      else if take 1 (drop 1 p) \<noteq> ''/'' \<or> take 1 (drop 2 p) = ''/'' then (''/'', drop 1 p)
      else (''//'', drop 2 p))"

definition parse_path :: "string \<Rightarrow> ppath" where
  "parse_path p =
     (case splitroot p of (r, rel) \<Rightarrow>
        \<lparr>p_root = r, p_parts = filter (\<lambda>x. x \<noteq> [] \<and> x \<noteq> ''.'') (split_on CHR ''/'' rel)\<rparr>)"

definition is_absolute :: "ppath \<Rightarrow> bool" where
  "is_absolute path = (p_root path \<noteq> [])"

definition str_path :: "ppath \<Rightarrow> string" where
  "str_path path =
     (if p_root path = [] \<and> p_parts path = [] then ''.''
      else p_root path @ join ''/'' (p_parts path))"

text \<open>
  The argument of \<^verbatim>\<open>B12\<close> is annotated \<^verbatim>\<open>Union[str, Path]\<close>. A
  \<^verbatim>\<open>Path\<close> object is given by its string form (\<^verbatim>\<open>Path(Path(s))\<close> is
  \<^verbatim>\<open>Path(s)\<close>). Any other object (\<^verbatim>\<open>None\<close>, an int, bytes) is given by
  the name of its type: \<^verbatim>\<open>Path\<close> raises \<^verbatim>\<open>TypeError\<close> on it. The wording
  of that message is the one of CPython 3.12; nothing below depends on it.
\<close>

datatype py_arg =
    PyStr string
  | PyNotPathLike string

fun Path :: "py_arg \<Rightarrow> exn + ppath" where
  "Path (PyStr s) = Inr (parse_path s)"
| "Path (PyNotPathLike ty) =
     Inl (Exn ''TypeError''
       (''argument should be a str or an os.PathLike object where __fspath__ returns a str, not ''
          @ [CHR 0x27] @ ty @ [CHR 0x27]))"

section \<open>B12: the path guard\<close>

definition B12 :: "py_arg \<Rightarrow> (bool, 'w) io" where
  "B12 filepath =
     try_except
       (io_bind (io_lift (Path filepath)) (\<lambda>path.
          if is_absolute path then io_return (startswith (str_path path) ''/data'')
          else io_return True))
       (\<lambda>e. io_bind (logger_error (''Security check failed: '' @ str_exn e)) (\<lambda>_.
          io_return False))"

section \<open>More of the standard library\<close>

text \<open>\<^verbatim>\<open>sub in s\<close> on strings\<close>

fun str_contains :: "string \<Rightarrow> string \<Rightarrow> bool" where
  "str_contains sub [] = (sub = [])"
| "str_contains sub (c # cs) = (startswith (c # cs) sub \<or> str_contains sub cs)"

text \<open>
  \<^verbatim>\<open>os.path.basename\<close> and \<^verbatim>\<open>os.path.dirname\<close> (posixpath): the path is cut
  after its last slash; the directory part loses its trailing slashes unless it
  consists of slashes only.
\<close>

definition basename :: "string \<Rightarrow> string" where
  "basename p = rev (takeWhile (\<lambda>c. c \<noteq> CHR ''/'') (rev p))"

definition dirname :: "string \<Rightarrow> string" where
  "dirname p =
     (let head = rev (dropWhile (\<lambda>c. c \<noteq> CHR ''/'') (rev p))
      in if head \<noteq> [] \<and> list_ex (\<lambda>c. c \<noteq> CHR ''/'') head
         then rev (dropWhile (\<lambda>c. c = CHR ''/'') (rev head))
         else head)"

text \<open>A text between single quotes, as the interpreter's own messages quote a name.\<close>

definition quote :: "string \<Rightarrow> string" where
  "quote s = [CHR 0x27] @ s @ [CHR 0x27]"

text \<open>
  \<^verbatim>\<open>repr\<close> of a string, a character being a code point below 256. The
  string is put between single quotes, or between double quotes when it holds
  a single quote and no double quote. The quote character in use and the
  backslash are escaped with a backslash; tab, newline and carriage return
  become \<^verbatim>\<open>\t\<close>, \<^verbatim>\<open>\n\<close>, \<^verbatim>\<open>\r\<close>; any other character that is not
  printable (the control characters, the no-break space, the soft hyphen)
  becomes \<^verbatim>\<open>\x\<close> and two lowercase hexadecimal digits.
\<close>

definition hex_digit :: "nat \<Rightarrow> char" where
  "hex_digit n = ''0123456789abcdef'' ! (n mod 16)"

definition py_printable :: "char \<Rightarrow> bool" where
  "py_printable c =
     (let n = (of_char c :: nat) in (32 \<le> n \<and> n < 127) \<or> (161 \<le> n \<and> n \<noteq> 173))"

definition repr_char :: "char \<Rightarrow> char \<Rightarrow> string" where
  "repr_char q c =
     (if c = q \<or> c = CHR 0x5C then [CHR 0x5C, c]
      else if c = CHR 0x09 then [CHR 0x5C, CHR ''t'']
      else if c = CHR 0x0A then [CHR 0x5C, CHR ''n'']
      else if c = CHR 0x0D then [CHR 0x5C, CHR ''r'']
      else if py_printable c then [c]
      else [CHR 0x5C, CHR ''x'', hex_digit (of_char c div 16), hex_digit (of_char c mod 16)])"

definition py_repr :: "string \<Rightarrow> string" where
  "py_repr s =
     (let q = (if CHR 0x27 \<in> set s \<and> CHR 0x22 \<notin> set s then CHR 0x22 else CHR 0x27)
      in [q] @ concat (map (repr_char q) s) @ [q])"

text \<open>
  Names bound in the module's global namespace after it has been imported:
  its imports, the logger, the functions, the application and the request
  class. Line 6, \<^verbatim>\<open>#from PIL import Image\<close>, is a comment, so \<^verbatim>\<open>Image\<close> is
  not among them (nor is it a builtin). Reading an unbound global raises
  \<^verbatim>\<open>NameError\<close>.
\<close>

definition module_globals :: "string list" where
  "module_globals =
     [''os'', ''requests'', ''sqlite3'', ''duckdb'', ''markdown'',
      ''Optional'', ''Union'', ''List'', ''Dict'', ''Any'', ''Path'', ''logging'', ''json'',
      ''wraps'', ''logger'', ''B12'', ''B3'', ''B5'', ''B6'', ''B7'', ''B9'',
      ''FastAPI'', ''HTTPException'', ''BaseModel'', ''app'', ''FilterRequest'', ''B10'']"

definition load_global :: "string \<Rightarrow> (unit, 'w) io" where
  "load_global name =
     (if name \<in> set module_globals then io_return ()
      else io_raise (Exn ''NameError'' (''name '' @ quote name @ '' is not defined'')))"

section \<open>The libraries the tasks delegate to\<close>

text \<open>An HTTP response of \<^verbatim>\<open>requests\<close>, by what the tasks read from it.\<close>

record response =
  resp_raise_for_status :: "exn option"
  resp_content_type :: "string option"
  resp_json :: "exn + json"
  resp_content :: "nat list"
  resp_text :: string

text \<open>
  A value in a result row of a database cursor. \<^verbatim>\<open>SqlOther\<close> stands for the
  types that \<^verbatim>\<open>json\<close> cannot serialise besides bytes (dates, decimals), by
  the name of the type.
\<close>

datatype sql_value =
    SqlNull
  | SqlInt int
  | SqlReal pyfloat
  | SqlText string
  | SqlBlob "nat list"
  | SqlOther string

datatype soup = Soup string

datatype bs_content =
    Document soup
  | ResultSet "string list"

record image =
  img_id :: nat
  img_format :: "string option"

text \<open>
  A pandas frame: the column labels and the rows, each row holding one scalar
  per column.
\<close>

record frame =
  columns :: "string list"
  rows :: "json list list"

definition frame_ok :: "frame \<Rightarrow> bool" where
  "frame_ok df = (distinct (columns df) \<and> list_all (\<lambda>r. length r = length (columns df)) (rows df))"

text \<open>
  Every operation of a library or of the operating system takes the world and
  returns an exception or a value, and the world after it.
  \<^verbatim>\<open>pd_series_eq\<close> is the comparison \<^verbatim>\<open>series == value\<close> of pandas, which
  gives a boolean mask or raises; \<^verbatim>\<open>str_soup\<close> is \<^verbatim>\<open>str\<close> of a parsed
  document.
\<close>

record 'w env =
  requests_get :: "string \<Rightarrow> (string \<times> string) list option \<Rightarrow> nat \<Rightarrow> 'w \<Rightarrow> (exn + response) \<times> 'w"
  os_makedirs :: "string \<Rightarrow> 'w \<Rightarrow> (exn + unit) \<times> 'w"
  open_file :: "string \<Rightarrow> string \<Rightarrow> 'w \<Rightarrow> (exn + unit) \<times> 'w"
  file_write :: "string \<Rightarrow> content \<Rightarrow> 'w \<Rightarrow> (exn + unit) \<times> 'w"
  file_read :: "string \<Rightarrow> 'w \<Rightarrow> (exn + string) \<times> 'w"
  db_connect :: "engine \<Rightarrow> string \<Rightarrow> 'w \<Rightarrow> (exn + nat) \<times> 'w"
  db_cursor :: "nat \<Rightarrow> 'w \<Rightarrow> (exn + nat) \<times> 'w"
  db_execute :: "nat \<Rightarrow> string \<Rightarrow> 'w \<Rightarrow> (exn + unit) \<times> 'w"
  db_fetchall :: "nat \<Rightarrow> 'w \<Rightarrow> (exn + sql_value list list) \<times> 'w"
  db_description :: "nat \<Rightarrow> 'w \<Rightarrow> (exn + string list option) \<times> 'w"
  db_close :: "nat \<Rightarrow> 'w \<Rightarrow> (exn + unit) \<times> 'w"
  import_module :: "string \<Rightarrow> 'w \<Rightarrow> (exn + unit) \<times> 'w"
  soup_parse :: "string \<Rightarrow> string \<Rightarrow> 'w \<Rightarrow> (exn + soup) \<times> 'w"
  soup_select :: "soup \<Rightarrow> string \<Rightarrow> 'w \<Rightarrow> (exn + string list) \<times> 'w"
  str_soup :: "soup \<Rightarrow> string"
  datetime_now :: "'w \<Rightarrow> (exn + string) \<times> 'w"
  image_open :: "string \<Rightarrow> 'w \<Rightarrow> (exn + image) \<times> 'w"
  image_resize :: "image \<Rightarrow> int list \<Rightarrow> 'w \<Rightarrow> (exn + image) \<times> 'w"
  image_save :: "image \<Rightarrow> string \<Rightarrow> string option \<Rightarrow> int option \<Rightarrow> 'w \<Rightarrow> (exn + unit) \<times> 'w"
  markdown_markdown :: "string \<Rightarrow> string list \<Rightarrow> 'w \<Rightarrow> (exn + string) \<times> 'w"
  pd_read_csv :: "string \<Rightarrow> 'w \<Rightarrow> (exn + frame) \<times> 'w"
  pd_series_eq :: "json list \<Rightarrow> json \<Rightarrow> exn + bool list"

section \<open>Writing JSON\<close>

text \<open>
  \<^verbatim>\<open>json.dump(obj, f, indent=2)\<close> writes the document piece by piece. When
  a value inside cannot be serialised it raises \<^verbatim>\<open>TypeError\<close> after the
  pieces before that value have been written: the file then holds the
  beginning of a document, recorded as \<^verbatim>\<open>JsonPrefix\<close>.
\<close>

fun collect :: "(exn + 'a) list \<Rightarrow> exn + 'a list" where
  "collect [] = Inr []"
| "collect (r # rs) =
     (case r of Inl e \<Rightarrow> Inl e
      | Inr x \<Rightarrow> (case collect rs of Inl e \<Rightarrow> Inl e | Inr xs \<Rightarrow> Inr (x # xs)))"

fun json_of_sql :: "sql_value \<Rightarrow> exn + json" where
  "json_of_sql SqlNull = Inr JNull"
| "json_of_sql (SqlInt i) = Inr (JInt i)"
| "json_of_sql (SqlReal x) = Inr (JFloat x)"
| "json_of_sql (SqlText t) = Inr (JStr t)"
| "json_of_sql (SqlBlob b) = Inl (Exn ''TypeError'' ''Object of type bytes is not JSON serializable'')"
| "json_of_sql (SqlOther ty) =
     Inl (Exn ''TypeError'' (''Object of type '' @ ty @ '' is not JSON serializable''))"

definition json_of_row :: "sql_value list \<Rightarrow> exn + json" where
  "json_of_row row = (case collect (map json_of_sql row) of Inl e \<Rightarrow> Inl e | Inr js \<Rightarrow> Inr (JArr js))"

definition json_of_rows :: "sql_value list list \<Rightarrow> exn + json" where
  "json_of_rows results =
     (case collect (map json_of_row results) of Inl e \<Rightarrow> Inl e | Inr js \<Rightarrow> Inr (JArr js))"

definition json_dump :: "'w env \<Rightarrow> string \<Rightarrow> exn + json \<Rightarrow> (unit, 'w) io" where
  "json_dump env path obj =
     (case obj of
        Inr j \<Rightarrow> ext (WriteFile path (JsonIndent2 j)) (file_write env path (JsonIndent2 j))
      | Inl e \<Rightarrow>
          io_bind (ext (WriteFile path JsonPrefix) (file_write env path JsonPrefix)) (\<lambda>_.
            io_raise e))"

section \<open>B3: fetch from an API and save\<close>

definition B3_body ::
  "'w env \<Rightarrow> string \<Rightarrow> string \<Rightarrow> (string \<times> string) list option \<Rightarrow> (bool, 'w) io" where
  "B3_body env url save_path headers =
     io_bind (ext (HttpGet url headers 30) (requests_get env url headers 30)) (\<lambda>response.
     io_bind (io_lift (case resp_raise_for_status response of Some e \<Rightarrow> Inl e | None \<Rightarrow> Inr ())) (\<lambda>_.
     io_bind (ext (MakeDirs (dirname save_path)) (os_makedirs env (dirname save_path))) (\<lambda>_.
     io_bind
       (let content_type = (case resp_content_type response of Some c \<Rightarrow> c | None \<Rightarrow> '''')
        in if str_contains ''application/json'' content_type
           then
             io_bind (ext (OpenFile save_path ''w'') (open_file env save_path ''w'')) (\<lambda>_.
             io_bind (io_lift (resp_json response)) (\<lambda>j.
               json_dump env save_path (Inr j)))
           else
             io_bind (ext (OpenFile save_path ''wb'') (open_file env save_path ''wb'')) (\<lambda>_.
               ext (WriteFile save_path (Bytes (resp_content response)))
                 (file_write env save_path (Bytes (resp_content response))))) (\<lambda>_.
     io_bind (logger_info (''Successfully saved API data to '' @ save_path)) (\<lambda>_.
       io_return True)))))"

definition B3 ::
  "'w env \<Rightarrow> string \<Rightarrow> string \<Rightarrow> (string \<times> string) list option \<Rightarrow> (bool, 'w) io" where
  "B3 env url save_path headers =
     io_bind (B12 (PyStr save_path)) (\<lambda>ok.
       if \<not> ok then
         io_bind (logger_error (''Security check failed for path: '' @ save_path)) (\<lambda>_.
           io_return False)
       else
         try_except (B3_body env url save_path headers)
           (\<lambda>e. io_bind (logger_error (''Error fetching API data: '' @ str_exn e)) (\<lambda>_.
              io_return False)))"

section \<open>B5: run a query\<close>

definition B5_body ::
  "'w env \<Rightarrow> string \<Rightarrow> string \<Rightarrow> string \<Rightarrow> (sql_value list list, 'w) io" where
  "B5_body env db_path query output_filename =
     (let is_sqlite = endswith db_path ''.db'';
          eng = (if is_sqlite then Sqlite3 else DuckDB)
      in
     io_bind (ext (DbConnect eng db_path) (db_connect env eng db_path)) (\<lambda>conn.
     io_bind (ext DbCursor (db_cursor env conn)) (\<lambda>cursor.
     io_bind (ext (DbExecute query) (db_execute env cursor query)) (\<lambda>_.
     io_bind (ext DbFetchAll (db_fetchall env cursor)) (\<lambda>results.
     io_bind (ext (MakeDirs (dirname output_filename)) (os_makedirs env (dirname output_filename))) (\<lambda>_.
     io_bind (ext (OpenFile output_filename ''w'') (open_file env output_filename ''w'')) (\<lambda>_.
     io_bind (ext DbDescription (db_description env cursor)) (\<lambda>description.
     io_bind (io_lift (case description of
                 None \<Rightarrow> Inl (Exn ''TypeError'' (quote ''NoneType'' @ '' object is not iterable''))
               | Some names \<Rightarrow> Inr names)) (\<lambda>column_names.
     io_bind (json_dump env output_filename
                (case json_of_rows results of
                   Inl e \<Rightarrow> Inl e
                 | Inr r \<Rightarrow> Inr (JObj [(''query'', JStr query), (''results'', r),
                                       (''column_names'', JArr (map JStr column_names))]))) (\<lambda>_.
     io_bind (ext DbClose (db_close env conn)) (\<lambda>_.
     io_bind (logger_info (''Successfully executed query and saved results to '' @ output_filename)) (\<lambda>_.
       io_return results))))))))))))"

definition B5 ::
  "'w env \<Rightarrow> string \<Rightarrow> string \<Rightarrow> string \<Rightarrow> (sql_value list list option, 'w) io" where
  "B5 env db_path query output_filename =
     io_bind (B12 (PyStr db_path)) (\<lambda>ok1.
       if \<not> ok1 then io_return None
       else
         io_bind (B12 (PyStr output_filename)) (\<lambda>ok2.
           if \<not> ok2 then io_return None
           else
             try_except
               (io_bind (B5_body env db_path query output_filename) (\<lambda>results.
                  io_return (Some results)))
               (\<lambda>e. io_bind (logger_error (''Error executing SQL query: '' @ str_exn e)) (\<lambda>_.
                  io_return None))))"

section \<open>B6: scrape a page\<close>

text \<open>\<^verbatim>\<open>str\<close> of what was selected: a list of tags prints as a Python list.\<close>

fun str_content :: "'w env \<Rightarrow> bs_content \<Rightarrow> string" where
  "str_content env (Document d) = str_soup env d"
| "str_content env (ResultSet tags) = ''['' @ join '', '' tags @ '']''"

definition B6_body :: "'w env \<Rightarrow> string \<Rightarrow> string \<Rightarrow> string option \<Rightarrow> (bool, 'w) io" where
  "B6_body env url output_filename selector =
     io_bind (ext (ImportModule ''bs4'') (import_module env ''bs4'')) (\<lambda>_.
     io_bind (ext (ImportModule ''datetime'') (import_module env ''datetime'')) (\<lambda>_.
     io_bind (ext (HttpGet url None 30) (requests_get env url None 30)) (\<lambda>response.
     io_bind (io_lift (case resp_raise_for_status response of Some e \<Rightarrow> Inl e | None \<Rightarrow> Inr ())) (\<lambda>_.
     io_bind (ext (SoupParse ''html.parser'') (soup_parse env (resp_text response) ''html.parser'')) (\<lambda>soup.
     io_bind (case selector of
                Some sel \<Rightarrow>
                  if sel \<noteq> [] then
                    io_bind (ext (SoupSelect sel) (soup_select env soup sel)) (\<lambda>tags.
                      io_return (ResultSet tags))
                  else io_return (Document soup)
              | None \<Rightarrow> io_return (Document soup)) (\<lambda>content.
     io_bind (ext (MakeDirs (dirname output_filename)) (os_makedirs env (dirname output_filename))) (\<lambda>_.
     io_bind (ext (OpenFile output_filename ''w'') (open_file env output_filename ''w'')) (\<lambda>_.
     io_bind (ext DatetimeNow (datetime_now env)) (\<lambda>timestamp.
     io_bind (json_dump env output_filename
                (Inr (JObj [(''url'', JStr url), (''timestamp'', JStr timestamp),
                            (''content'', JStr (str_content env content))]))) (\<lambda>_.
     io_bind (logger_info (''Successfully scraped website to '' @ output_filename)) (\<lambda>_.
       io_return True)))))))))))"

definition B6 :: "'w env \<Rightarrow> string \<Rightarrow> string \<Rightarrow> string option \<Rightarrow> (bool, 'w) io" where
  "B6 env url output_filename selector =
     io_bind (B12 (PyStr output_filename)) (\<lambda>ok.
       if \<not> ok then io_return False
       else
         try_except (B6_body env url output_filename selector)
           (\<lambda>e. io_bind (logger_error (''Error scraping website: '' @ str_exn e)) (\<lambda>_.
              io_return False)))"

section \<open>B7: process an image\<close>

text \<open>
  The first statement of the \<^verbatim>\<open>try\<close> block reads the global \<^verbatim>\<open>Image\<close>.
  The rest is what the block does once that name is bound: leaving the
  \<^verbatim>\<open>with\<close> block closes the image, which is not recorded.
\<close>

definition B7_body ::
  "'w env \<Rightarrow> string \<Rightarrow> string \<Rightarrow> int list option \<Rightarrow> string option \<Rightarrow> int \<Rightarrow> (bool, 'w) io" where
  "B7_body env image_path output_path resize format quality =
     io_bind (load_global ''Image'') (\<lambda>_.
     io_bind (ext (ImageOpen image_path) (image_open env image_path)) (\<lambda>img0.
     io_bind (case resize of
                Some dims \<Rightarrow>
                  if dims \<noteq> [] then ext (ImageResize dims) (image_resize env img0 dims)
                  else io_return img0
              | None \<Rightarrow> io_return img0) (\<lambda>img.
     io_bind (ext (MakeDirs (dirname output_path)) (os_makedirs env (dirname output_path))) (\<lambda>_.
     io_bind (let save_quality =
                    (if format = Some ''JPEG'' \<or> img_format img = Some ''JPEG''
                     then Some quality else None)
              in ext (ImageSave output_path format save_quality)
                   (image_save env img output_path format save_quality)) (\<lambda>_.
     io_bind (logger_info (''Successfully processed image to '' @ output_path)) (\<lambda>_.
       io_return True))))))"

definition B7 ::
  "'w env \<Rightarrow> string \<Rightarrow> string \<Rightarrow> int list option \<Rightarrow> string option \<Rightarrow> int \<Rightarrow> (bool, 'w) io" where
  "B7 env image_path output_path resize format quality =
     io_bind (B12 (PyStr image_path)) (\<lambda>ok1.
       if \<not> ok1 then io_return False
       else
         io_bind (B12 (PyStr output_path)) (\<lambda>ok2.
           if \<not> ok2 then io_return False
           else
             try_except (B7_body env image_path output_path resize format quality)
               (\<lambda>e. io_bind (logger_error (''Error processing image: '' @ str_exn e)) (\<lambda>_.
                  io_return False))))"

section \<open>B9: Markdown to HTML\<close>

definition full_html :: "string \<Rightarrow> string \<Rightarrow> string" where
  \<open>full_html name html =
     ''\<newline>        <!DOCTYPE html>\<newline>        <html>\<newline>        <head>\<newline>''
     @ ''            <meta charset="utf-8">\<newline>''
     @ ''            <meta name="viewport" content="width=device-width, initial-scale=1">\<newline>''
     @ ''            <title>Converted from '' @ name @ ''</title>\<newline>''
     @ ''        </head>\<newline>        <body>\<newline>            '' @ html @ ''\<newline>''
     @ ''        </body>\<newline>        </html>\<newline>        ''\<close>

definition B9_body :: "'w env \<Rightarrow> string \<Rightarrow> string \<Rightarrow> string list option \<Rightarrow> (bool, 'w) io" where
  "B9_body env md_path output_path extras =
     io_bind (ext (OpenFile md_path ''r'') (open_file env md_path ''r'')) (\<lambda>_.
     io_bind (ext (ReadFile md_path) (file_read env md_path)) (\<lambda>md_content.
     io_bind (let extensions = (case extras of Some xs \<Rightarrow> (if xs \<noteq> [] then xs else []) | None \<Rightarrow> [])
              in ext (MarkdownRender extensions) (markdown_markdown env md_content extensions)) (\<lambda>html.
     io_bind (ext (MakeDirs (dirname output_path)) (os_makedirs env (dirname output_path))) (\<lambda>_.
     io_bind (ext (OpenFile output_path ''w'') (open_file env output_path ''w'')) (\<lambda>_.
     io_bind (ext (WriteFile output_path (Text (full_html (basename md_path) html)))
                (file_write env output_path (Text (full_html (basename md_path) html)))) (\<lambda>_.
     io_bind (logger_info (''Successfully converted markdown to '' @ output_path)) (\<lambda>_.
       io_return True)))))))"

definition B9 :: "'w env \<Rightarrow> string \<Rightarrow> string \<Rightarrow> string list option \<Rightarrow> (bool, 'w) io" where
  "B9 env md_path output_path extras =
     io_bind (B12 (PyStr md_path)) (\<lambda>ok1.
       if \<not> ok1 then io_return False
       else
         io_bind (B12 (PyStr output_path)) (\<lambda>ok2.
           if \<not> ok2 then io_return False
           else
             try_except (B9_body env md_path output_path extras)
               (\<lambda>e. io_bind (logger_error (''Error converting markdown: '' @ str_exn e)) (\<lambda>_.
                  io_return False))))"

section \<open>B10: the endpoint that filters a CSV file\<close>

record FilterRequest =
  csv_path :: string
  filter_column :: string
  filter_value :: json

fun index_of :: "'a \<Rightarrow> 'a list \<Rightarrow> nat option" where
  "index_of x [] = None"
| "index_of x (y # ys) = (if x = y then Some 0 else map_option Suc (index_of x ys))"

text \<open>
  \<^verbatim>\<open>df[column]\<close>: the values of one column, or \<^verbatim>\<open>KeyError(column)\<close>,
  whose text is the \<^verbatim>\<open>repr\<close> of the label.
\<close>

definition frame_getitem :: "frame \<Rightarrow> string \<Rightarrow> exn + json list" where
  "frame_getitem df col =
     (case index_of col (columns df) of
        None \<Rightarrow> Inl (Exn ''KeyError'' (py_repr col))
      | Some i \<Rightarrow> Inr (map (\<lambda>r. r ! i) (rows df)))"

text \<open>\<^verbatim>\<open>df[bmask]\<close>: the rows at which the mask is true, in their order\<close>

definition frame_mask :: "frame \<Rightarrow> bool list \<Rightarrow> exn + frame" where
  "frame_mask df bmask =
     (if length bmask \<noteq> length (rows df) then Inl (Exn ''ValueError'' ''Item wrong length'')
      else Inr (df\<lparr>rows := map fst (filter snd (zip (rows df) bmask))\<rparr>))"

text \<open>\<^verbatim>\<open>df.to_dict(orient='records')\<close>: one dict per row, keyed in column order\<close>

definition to_dict_records :: "frame \<Rightarrow> (string \<times> json) list list" where
  "to_dict_records df = map (\<lambda>r. zip (columns df) r) (rows df)"

definition B10_body :: "'w env \<Rightarrow> FilterRequest \<Rightarrow> ((string \<times> json) list list, 'w) io" where
  "B10_body env request =
     io_bind (ext (ImportModule ''pandas'') (import_module env ''pandas'')) (\<lambda>_.
     io_bind (ext (ReadCsv (csv_path request)) (pd_read_csv env (csv_path request))) (\<lambda>df.
     io_bind (io_lift (frame_getitem df (filter_column request))) (\<lambda>series.
     io_bind (io_lift (pd_series_eq env series (filter_value request))) (\<lambda>bmask.
     io_bind (io_lift (frame_mask df bmask)) (\<lambda>filtered_df.
       io_return (to_dict_records filtered_df))))))"

definition B10 :: "'w env \<Rightarrow> FilterRequest \<Rightarrow> ((string \<times> json) list list, 'w) io" where
  "B10 env request =
     io_bind (B12 (PyStr (csv_path request))) (\<lambda>ok.
       if \<not> ok then
         io_raise (HTTPException 403 ''Access denied: Path must be within /data directory'')
       else
         try_except (B10_body env request)
           (\<lambda>e. io_raise (HTTPException 400 (str_exn e))))"





section \<open>A small world for concrete runs\<close>

text \<open>
  A world that is the list of files written so far, and libraries with fixed
  answers: the database answers every query with the single row \<^verbatim>\<open>(1,)\<close>
  under the column \<^verbatim>\<open>x\<close>, the Markdown renderer turns a line
  \<^verbatim>\<open># Title\<close> into a heading, the CSV reader returns a frame of three rows,
  and a series is compared with a value element by element.
  \<^verbatim>\<open>os.makedirs('')\<close> raises \<^verbatim>\<open>FileNotFoundError\<close>, as it does in Python.
\<close>

type_synonym files = "(string \<times> content) list"

definition demo_response :: response where
  "demo_response =
     \<lparr>resp_raise_for_status = None,
      resp_content_type = Some ''application/json; charset=utf-8'',
      resp_json = Inr (JObj [(''ok'', JBool True)]),
      resp_content = [],
      resp_text = ''<html></html>''\<rparr>"

definition demo_frame :: frame where
  "demo_frame =
     \<lparr>columns = [''id'', ''status'', ''name''],
      rows = [[JInt 1, JStr ''active'', JStr ''ann''],
              [JInt 2, JStr ''closed'', JStr ''bob''],
              [JInt 3, JStr ''active'', JStr ''cy'']]\<rparr>"

definition demo_env :: "files env" where
  "demo_env =
     \<lparr>requests_get = (\<lambda>url headers timeout w. (Inr demo_response, w)),
      os_makedirs = (\<lambda>d w.
        if d = [] then (Inl (Exn ''FileNotFoundError'' (''[Errno 2] No such file or directory: '' @ quote d)), w)
        else (Inr (), w)),
      open_file = (\<lambda>p mode w.
        if mode = ''r'' \<and> map_of w p = None
        then (Inl (Exn ''FileNotFoundError'' (''[Errno 2] No such file or directory: '' @ quote p)), w)
        else (Inr (), w)),
      file_write = (\<lambda>p c w. (Inr (), (p, c) # w)),
      file_read = (\<lambda>p w.
        (case map_of w p of
           Some (Text t) \<Rightarrow> Inr t
         | _ \<Rightarrow> Inl (Exn ''UnicodeDecodeError'' ''invalid start byte''), w)),
      db_connect = (\<lambda>eng p w. (Inr 0, w)),
      db_cursor = (\<lambda>conn w. (Inr 0, w)),
      db_execute = (\<lambda>cur q w. (Inr (), w)),
      db_fetchall = (\<lambda>cur w. (Inr [[SqlInt 1]], w)),
      db_description = (\<lambda>cur w. (Inr (Some [''x'']), w)),
      db_close = (\<lambda>conn w. (Inr (), w)),
      import_module = (\<lambda>m w. (Inr (), w)),
      soup_parse = (\<lambda>markup parser w. (Inr (Soup markup), w)),
      soup_select = (\<lambda>d sel w. (Inr [], w)),
      str_soup = (\<lambda>d. case d of Soup markup \<Rightarrow> markup),
      datetime_now = (\<lambda>w. (Inr ''2025-01-01 00:00:00.000000'', w)),
      image_open = (\<lambda>p w. (Inr \<lparr>img_id = 0, img_format = Some ''PNG''\<rparr>, w)),
      image_resize = (\<lambda>img dims w. (Inr \<lparr>img_id = Suc (img_id img), img_format = None\<rparr>, w)),
      image_save = (\<lambda>img p fmt q w. (Inr (), w)),
      markdown_markdown = (\<lambda>src exts w.
        (Inr (if startswith src ''# '' then ''<h1>'' @ drop 2 src @ ''</h1>'' else ''<p>'' @ src @ ''</p>''), w)),
      pd_read_csv = (\<lambda>p w. (Inr demo_frame, w)),
      pd_series_eq = (\<lambda>series v. Inr (map (\<lambda>c. c = v) series))\<rparr>"

definition demo_state :: "files state" where
  "demo_state = \<lparr>world = [(''/data/docs/readme.md'', Text ''# Title'')], trace = []\<rparr>"

definition demo_request :: FilterRequest where
  "demo_request =
     \<lparr>csv_path = ''/data/people.csv'', filter_column = ''status'', filter_value = JStr ''active''\<rparr>"



section \<open>Predicates on traces\<close>

fun is_db_connect :: "event \<Rightarrow> bool" where
  "is_db_connect (DbConnect eng p) = True"
| "is_db_connect ev = False"

text \<open>Every run of \<open>m\<close> only appends events, and all of them satisfy \<open>P\<close>.\<close>

definition emits :: "(event \<Rightarrow> bool) \<Rightarrow> ('a, 'w) io \<Rightarrow> bool" where
  "emits P m = (\<forall>s. \<exists>evs. trace (snd (m s)) = trace s @ evs \<and> list_all P evs)"

section \<open>What the specification asks of the guard\<close>

text \<open>
  The specification speaks of a path that "resolves to a path at or under the
  allowed root". This is the lexical resolution of an absolute path: \<^verbatim>\<open>..\<close>
  removes the component before it (and stays at the root when there is none);
  the resolved path is under \<^verbatim>\<open>/data\<close> when its first component is
  \<^verbatim>\<open>data\<close>. It follows the specification's words, not the source: the
  source never resolves a path.
\<close>

fun resolve_parts :: "string list \<Rightarrow> string list \<Rightarrow> string list" where
  "resolve_parts acc [] = rev acc"
| "resolve_parts acc (x # xs) =
     (if x = ''..'' then resolve_parts (case acc of [] \<Rightarrow> [] | a # as \<Rightarrow> as) xs
      else resolve_parts (x # acc) xs)"

definition spec_under_allowed_root :: "string \<Rightarrow> bool" where
  "spec_under_allowed_root p =
     (case resolve_parts [] (p_parts (parse_path p)) of [] \<Rightarrow> False | c # cs \<Rightarrow> c = ''data'')"

section \<open>Properties of the guard\<close>

lemma B12_ok:
  "Path filepath = Inr path \<Longrightarrow>
   B12 filepath s =
     (Inr (if is_absolute path then startswith (str_path path) ''/data'' else True), s)"
  by (simp add: B12_def try_except_def io_bind_def io_lift_def io_return_def)

lemma B12_exn:
  "Path filepath = Inl e \<Longrightarrow>
   B12 filepath s =
     (Inr False, s\<lparr>trace := trace s @ [LogError (''Security check failed: '' @ str_exn e)]\<rparr>)"
  by (simp add: B12_def try_except_def io_bind_def io_lift_def io_return_def logger_error_def)

text \<open>
  C1. When the argument parses to a path: for an absolute path the guard
  answers whether the string form of the path starts with \<^verbatim>\<open>/data\<close>; for a
  relative path it answers true. It changes nothing.
\<close>

theorem B12_prefix_rule:
  "Path filepath = Inr path \<Longrightarrow>
     (is_absolute path \<longrightarrow> fst (B12 filepath s) = Inr (startswith (str_path path) ''/data'')) \<and>
     (\<not> is_absolute path \<longrightarrow> fst (B12 filepath s) = Inr True) \<and>
     snd (B12 filepath s) = s"
  by (simp add: B12_ok)

theorem B12_prefix_rule_witness:
  "fst (B12 (PyStr ''/data/in.csv'') \<lparr>world = (), trace = []\<rparr>) = Inr True \<and>
   fst (B12 (PyStr ''/etc/passwd'') \<lparr>world = (), trace = []\<rparr>) = Inr False \<and>
   fst (B12 (PyStr ''notes/a.md'') \<lparr>world = (), trace = []\<rparr>) = Inr True"
  using B12_prefix_rule [of "PyStr ''/data/in.csv''" "parse_path ''/data/in.csv''"
          "\<lparr>world = (), trace = []\<rparr>"]
        B12_prefix_rule [of "PyStr ''/etc/passwd''" "parse_path ''/etc/passwd''"
          "\<lparr>world = (), trace = []\<rparr>"]
        B12_prefix_rule [of "PyStr ''notes/a.md''" "parse_path ''notes/a.md''"
          "\<lparr>world = (), trace = []\<rparr>"]
  by (simp add: parse_path_def splitroot_def is_absolute_def str_path_def startswith_def)

text \<open>
  C4. The guard returns a boolean on every argument and never raises. When
  building the path raises, the guard logs the error and answers false.
\<close>

theorem B12_total:
  "(\<exists>b. fst (B12 filepath s) = Inr b) \<and>
   (\<forall>e. Path filepath = Inl e \<longrightarrow>
      B12 filepath s =
        (Inr False, s\<lparr>trace := trace s @ [LogError (''Security check failed: '' @ str_exn e)]\<rparr>))"
  by (cases "Path filepath") (auto simp: B12_ok B12_exn)

theorem B12_total_witness:
  "\<exists>e. Path (PyNotPathLike ''NoneType'') = Inl e \<and>
     B12 (PyNotPathLike ''NoneType'') \<lparr>world = (), trace = []\<rparr> =
       (Inr False, \<lparr>world = (), trace = [LogError (''Security check failed: '' @ str_exn e)]\<rparr>)"
  using B12_total [of "PyNotPathLike ''NoneType''" "\<lparr>world = (), trace = []\<rparr>"]
  by simp

section \<open>Running the tasks\<close>


lemma io_bind_return [simp]: "io_bind (io_return x) f s = f x s"
  by (simp add: io_bind_def io_return_def)

lemma io_bind_raise [simp]: "io_bind (io_raise e) f s = (Inl e, s)"
  by (simp add: io_bind_def io_raise_def)

lemma io_bind_lift_Inr [simp]: "io_bind (io_lift (Inr x)) f s = f x s"
  by (simp add: io_bind_def io_lift_def)

lemma io_bind_lift_Inl [simp]: "io_bind (io_lift (Inl e)) f s = (Inl e, s)"
  by (simp add: io_bind_def io_lift_def)

lemma io_bind_logger_info [simp]:
  "io_bind (logger_info msg) f s = f () (s\<lparr>trace := trace s @ [LogInfo msg]\<rparr>)"
  by (simp add: io_bind_def logger_info_def)

lemma io_bind_logger_error [simp]:
  "io_bind (logger_error msg) f s = f () (s\<lparr>trace := trace s @ [LogError msg]\<rparr>)"
  by (simp add: io_bind_def logger_error_def)

lemma io_bind_ext_Inr:
  "f (world s) = (Inr x, w') \<Longrightarrow>
   io_bind (ext ev f) g s = g x (s\<lparr>world := w', trace := trace s @ [ev]\<rparr>)"
  by (simp add: io_bind_def ext_def)

lemma io_bind_ext_Inl:
  "f (world s) = (Inl e, w') \<Longrightarrow>
   io_bind (ext ev f) g s = (Inl e, s\<lparr>world := w', trace := trace s @ [ev]\<rparr>)"
  by (simp add: io_bind_def ext_def)

lemma B12_PyStr:
  "B12 (PyStr p) s =
     (Inr (if is_absolute (parse_path p) then startswith (str_path (parse_path p)) ''/data''
           else True), s)"
  by (simp add: B12_ok)

lemma io_bind_B12:
  "io_bind (B12 (PyStr p)) f s = f (fst (B12 (PyStr p) s)  = Inr True) s"
  by (simp add: B12_PyStr io_bind_def)

lemma B12_PyStr_bool:
  "fst (B12 (PyStr p) s) = Inr False \<longleftrightarrow> fst (B12 (PyStr p) s) \<noteq> Inr True"
  by (simp add: B12_PyStr)

lemma B3_guard: "fst (B12 (PyStr save_path) s) = Inr False \<Longrightarrow>
     B3 env url save_path headers s =
       (Inr False,
        s\<lparr>trace := trace s @ [LogError (''Security check failed for path: '' @ save_path)]\<rparr>)"
  by (simp add: B3_def io_bind_B12 B12_PyStr_bool io_return_def)

lemma B5_guard: "fst (B12 (PyStr db_path) s) = Inr False \<or> fst (B12 (PyStr output_filename) s) = Inr False \<Longrightarrow>
     B5 env db_path query output_filename s = (Inr None, s)"
  by (auto simp add: B5_def io_bind_B12 B12_PyStr_bool io_return_def)

lemma B6_guard: "fst (B12 (PyStr output_filename) s) = Inr False \<Longrightarrow>
     B6 env url output_filename selector s = (Inr False, s)"
  by (simp add: B6_def io_bind_B12 B12_PyStr_bool io_return_def)

lemma B7_guard: "fst (B12 (PyStr image_path) s) = Inr False \<or> fst (B12 (PyStr output_path) s) = Inr False \<Longrightarrow>
     B7 env image_path output_path resize format quality s = (Inr False, s)"
  by (auto simp add: B7_def io_bind_B12 B12_PyStr_bool io_return_def)

lemma B9_guard: "fst (B12 (PyStr md_path) s) = Inr False \<or> fst (B12 (PyStr output_path) s) = Inr False \<Longrightarrow>
     B9 env md_path output_path extras s = (Inr False, s)"
  by (auto simp add: B9_def io_bind_B12 B12_PyStr_bool io_return_def)

lemma B7_body_NameError:
  "B7_body env image_path output_path resize format quality s =
     (Inl (Exn ''NameError'' (''name '' @ quote ''Image'' @ '' is not defined'')), s)"
  by (simp add: B7_body_def load_global_def module_globals_def)

text \<open>
  Whatever its arguments, \<^verbatim>\<open>B7\<close> returns false: either a guard
  rejects a path, or the \<^verbatim>\<open>try\<close> block stops at the unbound name
  \<^verbatim>\<open>Image\<close>. No image is opened and nothing is written.
\<close>

lemma B7_never_succeeds:
  "B7 env image_path output_path resize format quality s = (Inr False, s) \<or>
   B7 env image_path output_path resize format quality s =
     (Inr False,
      s\<lparr>trace := trace s @
         [LogError (''Error processing image: name '' @ quote ''Image'' @ '' is not defined'')]\<rparr>)"
  by (simp add: B7_def io_bind_B12 try_except_def B7_body_NameError io_return_def)

text \<open>
  C9. The claim is that \<^verbatim>\<open>B7\<close>, given paths that pass the guard and
  a working image library, decodes, resizes, saves and returns true. On the
  paths \<^verbatim>\<open>/data/in.png\<close> and \<^verbatim>\<open>/data/out/small.jpg\<close>, which pass the
  guard, it returns false in every environment: the only thing it does is log
  the \<^verbatim>\<open>NameError\<close> for \<^verbatim>\<open>Image\<close>.
\<close>

theorem B7_fails_on_guarded_paths:
  "B7 env ''/data/in.png'' ''/data/out/small.jpg'' (Some [64, 64]) (Some ''JPEG'') 85 s =
     (Inr False,
      s\<lparr>trace := trace s @
         [LogError (''Error processing image: name '' @ quote ''Image'' @ '' is not defined'')]\<rparr>)"
  by (simp add: B7_def B12_PyStr io_bind_def try_except_def B7_body_NameError io_return_def logger_error_def
       parse_path_def splitroot_def is_absolute_def str_path_def startswith_def)


lemmas path_simps = parse_path_def splitroot_def is_absolute_def str_path_def startswith_def

text \<open>
  C3. When a path argument of a task fails the guard, the task returns its
  failure value (false, or \<^verbatim>\<open>None\<close> for \<^verbatim>\<open>B5\<close>). The world is the
  one it started in and the trace has no new event, except that \<^verbatim>\<open>B3\<close>
  logs the rejected path: no delegate was called and no file was touched.
\<close>

theorem guard_failure_returns_early:
  "(fst (B12 (PyStr save_path) s) = Inr False \<longrightarrow>
      B3 env url save_path headers s =
        (Inr False,
         s\<lparr>trace := trace s @ [LogError (''Security check failed for path: '' @ save_path)]\<rparr>)) \<and>
   (fst (B12 (PyStr db_path) s) = Inr False \<or> fst (B12 (PyStr output_filename) s) = Inr False \<longrightarrow>
      B5 env db_path query output_filename s = (Inr None, s)) \<and>
   (fst (B12 (PyStr output_filename) s) = Inr False \<longrightarrow>
      B6 env url output_filename selector s = (Inr False, s)) \<and>
   (fst (B12 (PyStr image_path) s) = Inr False \<or> fst (B12 (PyStr output_path) s) = Inr False \<longrightarrow>
      B7 env image_path output_path resize format quality s = (Inr False, s)) \<and>
   (fst (B12 (PyStr md_path) s) = Inr False \<or> fst (B12 (PyStr output_path) s) = Inr False \<longrightarrow>
      B9 env md_path output_path extras s = (Inr False, s))"
  by (intro conjI impI; (erule B3_guard | erule B5_guard | erule B6_guard | erule B7_guard | erule B9_guard))

theorem guard_failure_returns_early_witness:
  "B3 demo_env ''http://api.test/items'' ''/etc/cron.d/job'' None demo_state =
     (Inr False,
      demo_state\<lparr>trace := [LogError ''Security check failed for path: /etc/cron.d/job'']\<rparr>) \<and>
   B5 demo_env ''/data/app.db'' ''SELECT 1 AS x'' ''/etc/cron.d/job'' demo_state = (Inr None, demo_state) \<and>
   B6 demo_env ''http://api.test/items'' ''/etc/cron.d/job'' None demo_state = (Inr False, demo_state) \<and>
   B7 demo_env ''/etc/shadow'' ''/etc/cron.d/job'' None None 85 demo_state = (Inr False, demo_state) \<and>
   B9 demo_env ''/data/docs/readme.md'' ''/etc/cron.d/job'' None demo_state = (Inr False, demo_state)"
  using guard_failure_returns_early [where s = demo_state and env = demo_env
          and save_path = "''/etc/cron.d/job''" and url = "''http://api.test/items''" and headers = None
          and db_path = "''/data/app.db''" and query = "''SELECT 1 AS x''"
          and output_filename = "''/etc/cron.d/job''" and selector = None
          and image_path = "''/etc/shadow''" and output_path = "''/etc/cron.d/job''"
          and resize = None and format = None and quality = 85
          and md_path = "''/data/docs/readme.md''" and extras = None]
  by (simp add: B12_PyStr path_simps demo_state_def)

text \<open>
  C2. The guard accepts absolute paths that are not under \<^verbatim>\<open>/data\<close>: a
  sibling directory whose name begins with \<^verbatim>\<open>data\<close>, and a path that leaves
  \<^verbatim>\<open>/data\<close> through \<^verbatim>\<open>..\<close>. A task then writes there: \<^verbatim>\<open>B3\<close>
  saves a response to \<^verbatim>\<open>/database/secret.txt\<close>.
\<close>

theorem B12_accepts_absolute_outside_root:
  "fst (B12 (PyStr ''/database/secret.txt'') s) = Inr True \<and>
   is_absolute (parse_path ''/database/secret.txt'') \<and>
   \<not> spec_under_allowed_root ''/database/secret.txt'' \<and>
   fst (B12 (PyStr ''/data/../etc/passwd'') s) = Inr True \<and>
   is_absolute (parse_path ''/data/../etc/passwd'') \<and>
   \<not> spec_under_allowed_root ''/data/../etc/passwd'' \<and>
   B3 demo_env ''http://api.test/items'' ''/database/secret.txt'' None demo_state =
     (Inr True,
      \<lparr>world = [(''/database/secret.txt'', JsonIndent2 (JObj [(''ok'', JBool True)])),
                (''/data/docs/readme.md'', Text ''# Title'')],
       trace = [HttpGet ''http://api.test/items'' None 30, MakeDirs ''/database'',
                OpenFile ''/database/secret.txt'' ''w'',
                WriteFile ''/database/secret.txt'' (JsonIndent2 (JObj [(''ok'', JBool True)])),
                LogInfo ''Successfully saved API data to /database/secret.txt'']\<rparr>)"
  by (simp add: B12_PyStr path_simps spec_under_allowed_root_def
        B3_def B3_body_def try_except_def io_bind_def ext_def io_lift_def io_return_def
        logger_info_def json_dump_def Let_def dirname_def
        demo_env_def demo_state_def demo_response_def)

section \<open>The endpoint\<close>


lemma B10_guard_pass:
  "fst (B12 (PyStr (csv_path request)) s) = Inr True \<Longrightarrow>
   B10 env request s =
     try_except (B10_body env request) (\<lambda>e. io_raise (HTTPException 400 (str_exn e))) s"
  by (simp add: B10_def io_bind_B12)










lemma filter_by_mask: "map fst (filter snd (zip xs (map P xs))) = filter P xs"
  by (induction xs) auto

lemma index_of_Some: "index_of x xs = Some j \<Longrightarrow> j < length xs \<and> xs ! j = x"
  by (induction xs arbitrary: j) (auto split: if_splits)

lemma frame_mask_elementwise:
  "frame_mask df (map P (rows df)) = Inr (df\<lparr>rows := filter P (rows df)\<rparr>)"
  by (simp add: frame_mask_def filter_by_mask)

lemma B10_body_filter:
  assumes imp: "import_module env ''pandas'' (world s) = (Inr (), w1)"
    and csv: "pd_read_csv env (csv_path request) w1 = (Inr df, w2)"
    and col: "index_of (filter_column request) (columns df) = Some i"
    and cmp: "pd_series_eq env (map (\<lambda>r. r ! i) (rows df)) (filter_value request) =
                Inr (map (\<lambda>r. eq (r ! i) (filter_value request)) (rows df))"
  shows "B10_body env request s =
           (Inr (map (\<lambda>r. zip (columns df) r)
                   (filter (\<lambda>r. eq (r ! i) (filter_value request)) (rows df))),
            s\<lparr>world := w2,
              trace := trace s @ [ImportModule ''pandas'', ReadCsv (csv_path request)]\<rparr>)"
  using imp csv col cmp
  by (simp add: B10_body_def io_bind_ext_Inr frame_getitem_def frame_mask_elementwise
        to_dict_records_def io_return_def)

text \<open>
  C7. When the guard accepts the path, pandas loads the file into a
  well-formed frame that has the column, and the comparison of that column
  with \<^verbatim>\<open>filter_value\<close> is the elementwise test \<open>eq\<close> (equality, in
  pandas, for a scalar value), the endpoint returns exactly the rows whose
  value in the column satisfies \<open>eq\<close>, in their order in the file, each as an
  object whose keys are the columns of the file in their order and whose
  values are the values of the row.
\<close>

theorem B10_returns_matching_rows:
  assumes guard: "fst (B12 (PyStr (csv_path request)) s) = Inr True"
    and imp: "import_module env ''pandas'' (world s) = (Inr (), w1)"
    and csv: "pd_read_csv env (csv_path request) w1 = (Inr df, w2)"
    and ok: "frame_ok df"
    and col: "index_of (filter_column request) (columns df) = Some i"
    and cmp: "pd_series_eq env (map (\<lambda>r. r ! i) (rows df)) (filter_value request) =
                Inr (map (\<lambda>r. eq (r ! i) (filter_value request)) (rows df))"
  shows "fst (B10 env request s) =
           Inr (map (\<lambda>r. zip (columns df) r)
                  (filter (\<lambda>r. eq (r ! i) (filter_value request)) (rows df))) \<and>
         (\<forall>r \<in> set (filter (\<lambda>r. eq (r ! i) (filter_value request)) (rows df)).
            map fst (zip (columns df) r) = columns df \<and> map snd (zip (columns df) r) = r) \<and>
         i < length (columns df) \<and> columns df ! i = filter_column request"
proof -
  have run: "fst (B10 env request s) =
           Inr (map (\<lambda>r. zip (columns df) r)
                  (filter (\<lambda>r. eq (r ! i) (filter_value request)) (rows df)))"
    using guard by (simp add: B10_guard_pass try_except_def B10_body_filter [where eq = eq, OF imp csv col cmp])
  have len: "\<forall>r \<in> set (rows df). length r = length (columns df)"
    using ok by (simp add: frame_ok_def list_all_iff)
  from run len index_of_Some [OF col] show ?thesis by simp
qed

theorem B10_returns_matching_rows_witness:
  "fst (B12 (PyStr (csv_path demo_request)) demo_state) = Inr True \<and>
   frame_ok demo_frame \<and>
   fst (B10 demo_env demo_request demo_state) =
     Inr [[(''id'', JInt 1), (''status'', JStr ''active''), (''name'', JStr ''ann'')],
          [(''id'', JInt 3), (''status'', JStr ''active''), (''name'', JStr ''cy'')]]"
  using B10_returns_matching_rows [where env = demo_env and request = demo_request
          and s = demo_state and df = demo_frame and i = 1 and eq = "(=)"
          and ?w1.0 = "world demo_state" and ?w2.0 = "world demo_state"]
  by (simp add: demo_env_def demo_frame_def demo_state_def demo_request_def B12_PyStr path_simps
        frame_ok_def)

section \<open>Rendering Markdown\<close>

lemma startswith_append: "startswith (p @ s) p"
  by (simp add: startswith_def)

lemma str_contains_prefix: "str_contains sub (sub @ b)"
  by (cases "sub @ b") (auto simp: startswith_def dest: arg_cong [where f = "take (length sub)"])

lemma str_contains_append: "str_contains sub (a @ sub @ b)"
  by (induction a) (simp_all add: str_contains_prefix)

lemma full_html_contains_html: "str_contains html (full_html name html)"
proof -
  have eq: \<open>full_html name html =
      (''\<newline>        <!DOCTYPE html>\<newline>        <html>\<newline>        <head>\<newline>''
       @ ''            <meta charset="utf-8">\<newline>''
       @ ''            <meta name="viewport" content="width=device-width, initial-scale=1">\<newline>''
       @ ''            <title>Converted from '' @ name @ ''</title>\<newline>''
       @ ''        </head>\<newline>        <body>\<newline>            '')
      @ html @ ''\<newline>        </body>\<newline>        </html>\<newline>        ''\<close>
    by (simp add: full_html_def)
  show ?thesis
    by (simp only: eq str_contains_append)
qed

lemma full_html_contains_title:
  "str_contains (''<title>Converted from '' @ name @ ''</title>'') (full_html name html)"
proof -
  have eq: \<open>full_html name html =
      (''\<newline>        <!DOCTYPE html>\<newline>        <html>\<newline>        <head>\<newline>''
       @ ''            <meta charset="utf-8">\<newline>''
       @ ''            <meta name="viewport" content="width=device-width, initial-scale=1">\<newline>''
       @ ''            '')
      @ (''<title>Converted from '' @ name @ ''</title>'')
      @ (''\<newline>        </head>\<newline>        <body>\<newline>            '' @ html
         @ ''\<newline>        </body>\<newline>        </html>\<newline>        '')\<close>
    by (simp add: full_html_def)
  show ?thesis
    by (simp only: eq str_contains_append)
qed

lemma B9_body_success:
  assumes "open_file env md_path ''r'' (world s) = (Inr (), w1)"
    and "file_read env md_path w1 = (Inr md_content, w2)"
    and "markdown_markdown env md_content (case extras of Some xs \<Rightarrow> xs | None \<Rightarrow> []) w2 = (Inr html, w3)"
    and "os_makedirs env (dirname output_path) w3 = (Inr (), w4)"
    and "open_file env output_path ''w'' w4 = (Inr (), w5)"
    and "file_write env output_path (Text (full_html (basename md_path) html)) w5 = (Inr (), w6)"
  shows "B9_body env md_path output_path extras s =
           (Inr True,
            s\<lparr>world := w6,
              trace := trace s @
                [OpenFile md_path ''r'', ReadFile md_path,
                 MarkdownRender (case extras of Some xs \<Rightarrow> xs | None \<Rightarrow> []),
                 MakeDirs (dirname output_path), OpenFile output_path ''w'',
                 WriteFile output_path (Text (full_html (basename md_path) html)),
                 LogInfo (''Successfully converted markdown to '' @ output_path)]\<rparr>)"
proof -
  have ext: "(case extras of Some xs \<Rightarrow> (if xs \<noteq> [] then xs else []) | None \<Rightarrow> []) =
             (case extras of Some xs \<Rightarrow> xs | None \<Rightarrow> [])"
    by (simp split: option.splits)
  show ?thesis
    using assms
    by (simp add: B9_body_def ext Let_def io_bind_ext_Inr io_return_def)
qed

text \<open>
  C8. When both paths pass the guard, the source file reads as the one line
  \<^verbatim>\<open># Title\<close>, the Markdown library renders that line as
  \<^verbatim>\<open><h1>Title</h1>\<close>, and the directory and the output file can be
  written, \<^verbatim>\<open>B9\<close> returns true after writing one text to the output
  path: the fixed document shell, with the base name of the source path in
  its title element and the heading in its body.
\<close>

theorem B9_renders_heading:
  assumes "fst (B12 (PyStr md_path) s) = Inr True"
    and "fst (B12 (PyStr output_path) s) = Inr True"
    and "open_file env md_path ''r'' (world s) = (Inr (), w1)"
    and "file_read env md_path w1 = (Inr ''# Title'', w2)"
    and "markdown_markdown env ''# Title'' (case extras of Some xs \<Rightarrow> xs | None \<Rightarrow> []) w2 =
           (Inr ''<h1>Title</h1>'', w3)"
    and "os_makedirs env (dirname output_path) w3 = (Inr (), w4)"
    and "open_file env output_path ''w'' w4 = (Inr (), w5)"
    and "file_write env output_path (Text (full_html (basename md_path) ''<h1>Title</h1>'')) w5 =
           (Inr (), w6)"
  shows \<open>B9 env md_path output_path extras s =
           (Inr True,
            s\<lparr>world := w6,
              trace := trace s @
                [OpenFile md_path ''r'', ReadFile md_path,
                 MarkdownRender (case extras of Some xs \<Rightarrow> xs | None \<Rightarrow> []),
                 MakeDirs (dirname output_path), OpenFile output_path ''w'',
                 WriteFile output_path (Text (full_html (basename md_path) ''<h1>Title</h1>'')),
                 LogInfo (''Successfully converted markdown to '' @ output_path)]\<rparr>) \<and>
         full_html (basename md_path) ''<h1>Title</h1>'' =
           ''\<newline>        <!DOCTYPE html>\<newline>        <html>\<newline>        <head>\<newline>''
           @ ''            <meta charset="utf-8">\<newline>''
           @ ''            <meta name="viewport" content="width=device-width, initial-scale=1">\<newline>''
           @ ''            <title>Converted from '' @ basename md_path @ ''</title>\<newline>''
           @ ''        </head>\<newline>        <body>\<newline>            ''
           @ ''<h1>Title</h1>'' @ ''\<newline>''
           @ ''        </body>\<newline>        </html>\<newline>        '' \<and>
         str_contains ''<h1>Title</h1>'' (full_html (basename md_path) ''<h1>Title</h1>'') \<and>
         str_contains (''<title>Converted from '' @ basename md_path @ ''</title>'')
           (full_html (basename md_path) ''<h1>Title</h1>'')\<close>
proof -
  have run: "B9 env md_path output_path extras s =
               try_except (B9_body env md_path output_path extras)
                 (\<lambda>e. io_bind (logger_error (''Error converting markdown: '' @ str_exn e)) (\<lambda>_.
                    io_return False)) s"
    using assms(1,2) by (simp add: B9_def io_bind_B12)
  have c1: "str_contains ''<h1>Title</h1>'' (full_html (basename md_path) ''<h1>Title</h1>'')"
    by (rule full_html_contains_html)
  have c2: "str_contains (''<title>Converted from '' @ basename md_path @ ''</title>'')
              (full_html (basename md_path) ''<h1>Title</h1>'')"
    by (rule full_html_contains_title)
  have shell: \<open>full_html (basename md_path) ''<h1>Title</h1>'' =
           ''\<newline>        <!DOCTYPE html>\<newline>        <html>\<newline>        <head>\<newline>''
           @ ''            <meta charset="utf-8">\<newline>''
           @ ''            <meta name="viewport" content="width=device-width, initial-scale=1">\<newline>''
           @ ''            <title>Converted from '' @ basename md_path @ ''</title>\<newline>''
           @ ''        </head>\<newline>        <body>\<newline>            ''
           @ ''<h1>Title</h1>'' @ ''\<newline>''
           @ ''        </body>\<newline>        </html>\<newline>        ''\<close>
    by (rule full_html_def)
  have res: "B9 env md_path output_path extras s =
           (Inr True,
            s\<lparr>world := w6,
              trace := trace s @
                [OpenFile md_path ''r'', ReadFile md_path,
                 MarkdownRender (case extras of Some xs \<Rightarrow> xs | None \<Rightarrow> []),
                 MakeDirs (dirname output_path), OpenFile output_path ''w'',
                 WriteFile output_path (Text (full_html (basename md_path) ''<h1>Title</h1>'')),
                 LogInfo (''Successfully converted markdown to '' @ output_path)]\<rparr>)"
    by (simp only: run try_except_def B9_body_success [OF assms(3-8)] prod.case sum.case)
  from res shell c1 c2 show ?thesis
    by (intro conjI)
qed

theorem B9_renders_heading_witness:
  "fst (B12 (PyStr ''/data/docs/readme.md'') demo_state) = Inr True \<and>
   fst (B12 (PyStr ''/data/site/readme.html'') demo_state) = Inr True \<and>
   B9 demo_env ''/data/docs/readme.md'' ''/data/site/readme.html'' None demo_state =
     (Inr True,
      \<lparr>world = [(''/data/site/readme.html'', Text (full_html ''readme.md'' ''<h1>Title</h1>'')),
                (''/data/docs/readme.md'', Text ''# Title'')],
       trace = [OpenFile ''/data/docs/readme.md'' ''r'', ReadFile ''/data/docs/readme.md'',
                MarkdownRender [], MakeDirs ''/data/site'', OpenFile ''/data/site/readme.html'' ''w'',
                WriteFile ''/data/site/readme.html'' (Text (full_html ''readme.md'' ''<h1>Title</h1>'')),
                LogInfo ''Successfully converted markdown to /data/site/readme.html'']\<rparr>) \<and>
   str_contains ''<h1>Title</h1>'' (full_html ''readme.md'' ''<h1>Title</h1>'')"
  using B9_renders_heading [where env = demo_env and s = demo_state
          and md_path = "''/data/docs/readme.md''" and output_path = "''/data/site/readme.html''"
          and extras = None
          and ?w1.0 = "world demo_state" and ?w2.0 = "world demo_state"
          and ?w3.0 = "world demo_state" and ?w4.0 = "world demo_state"
          and ?w5.0 = "world demo_state"
          and ?w6.0 = "(''/data/site/readme.html'', Text (full_html ''readme.md'' ''<h1>Title</h1>''))
                        # world demo_state"]
  by (simp add: demo_env_def demo_state_def B12_PyStr path_simps dirname_def basename_def)

section \<open>Running a query\<close>

lemma emits_return: "emits P (io_return x)"
  by (simp add: emits_def io_return_def)

lemma emits_raise: "emits P (io_raise e)"
  by (simp add: emits_def io_raise_def)

lemma emits_lift: "emits P (io_lift r)"
  by (simp add: emits_def io_lift_def)

lemma emits_ext: "P ev \<Longrightarrow> emits P (ext ev f)"
  by (simp add: emits_def ext_def split: prod.splits)

lemma emits_logger_info: "P (LogInfo msg) \<Longrightarrow> emits P (logger_info msg)"
  by (simp add: emits_def logger_info_def)

lemma emits_logger_error: "P (LogError msg) \<Longrightarrow> emits P (logger_error msg)"
  by (simp add: emits_def logger_error_def)

lemma emits_bind:
  assumes m: "emits P m" and f: "\<And>x. emits P (f x)"
  shows "emits P (io_bind m f)"
  unfolding emits_def
proof
  fix s
  obtain r s1 where ms: "m s = (r, s1)" by (cases "m s")
  from m obtain evs1 where e1: "trace s1 = trace s @ evs1" "list_all P evs1"
    unfolding emits_def using ms by (metis snd_conv)
  show "\<exists>evs. trace (snd (io_bind m f s)) = trace s @ evs \<and> list_all P evs"
  proof (cases r)
    case (Inl e)
    with ms e1 show ?thesis by (simp add: io_bind_def)
  next
    case (Inr x)
    from f [of x] obtain evs2 where
      e2: "trace (snd (f x s1)) = trace s1 @ evs2" "list_all P evs2"
      unfolding emits_def by blast
    from Inr ms e1 e2 show ?thesis by (simp add: io_bind_def)
  qed
qed

lemma emits_try:
  assumes m: "emits P m" and h: "\<And>e. emits P (h e)"
  shows "emits P (try_except m h)"
  unfolding emits_def
proof
  fix s
  obtain r s1 where ms: "m s = (r, s1)" by (cases "m s")
  from m obtain evs1 where e1: "trace s1 = trace s @ evs1" "list_all P evs1"
    unfolding emits_def using ms by (metis snd_conv)
  show "\<exists>evs. trace (snd (try_except m h s)) = trace s @ evs \<and> list_all P evs"
  proof (cases r)
    case (Inr x)
    with ms e1 show ?thesis by (simp add: try_except_def)
  next
    case (Inl e)
    from h [of e] obtain evs2 where
      e2: "trace (snd (h e s1)) = trace s1 @ evs2" "list_all P evs2"
      unfolding emits_def by blast
    from Inl ms e1 e2 show ?thesis by (simp add: try_except_def)
  qed
qed

lemma emits_json_dump: "(\<And>c. P (WriteFile path c)) \<Longrightarrow> emits P (json_dump env path obj)"
  by (cases obj) (simp_all add: json_dump_def emits_bind emits_ext emits_raise)

lemma emits_after_connect:
  "emits (\<lambda>ev. \<not> is_db_connect ev)
     (io_bind (ext DbCursor (db_cursor env conn)) (\<lambda>cursor.
      io_bind (ext (DbExecute query) (db_execute env cursor query)) (\<lambda>_.
      io_bind (ext DbFetchAll (db_fetchall env cursor)) (\<lambda>results.
      io_bind (ext (MakeDirs d) (os_makedirs env d)) (\<lambda>_.
      io_bind (ext (OpenFile output_filename ''w'') (open_file env output_filename ''w'')) (\<lambda>_.
      io_bind (ext DbDescription (db_description env cursor)) (\<lambda>description.
      io_bind (io_lift (lift_names description)) (\<lambda>column_names.
      io_bind (json_dump env output_filename (obj results column_names)) (\<lambda>_.
      io_bind (ext DbClose (db_close env conn)) (\<lambda>_.
      io_bind (logger_info msg) (\<lambda>_.
        io_return results)))))))))))"
  by (intro emits_bind emits_ext emits_lift emits_json_dump emits_logger_info emits_return) simp_all

lemma B5_guard_pass:
  "fst (B12 (PyStr db_path) s) = Inr True \<Longrightarrow> fst (B12 (PyStr output_filename) s) = Inr True \<Longrightarrow>
   B5 env db_path query output_filename s =
     try_except
       (io_bind (B5_body env db_path query output_filename) (\<lambda>results. io_return (Some results)))
       (\<lambda>e. io_bind (logger_error (''Error executing SQL query: '' @ str_exn e)) (\<lambda>_.
          io_return None)) s"
  by (simp add: B5_def io_bind_B12)

lemma io_bind_assoc: "io_bind (io_bind m f) g = io_bind m (\<lambda>x. io_bind (f x) g)"
  by (rule ext) (simp add: io_bind_def split: prod.splits sum.splits)

lemma B5_body_from_engine:
  "B5_body env db_path query output_filename =
     io_bind (ext (DbConnect (if endswith db_path ''.db'' then Sqlite3 else DuckDB) db_path)
                (db_connect env (if endswith db_path ''.db'' then Sqlite3 else DuckDB) db_path)) (\<lambda>conn.
     io_bind (ext DbCursor (db_cursor env conn)) (\<lambda>cursor.
     io_bind (ext (DbExecute query) (db_execute env cursor query)) (\<lambda>_.
     io_bind (ext DbFetchAll (db_fetchall env cursor)) (\<lambda>results.
     io_bind (ext (MakeDirs (dirname output_filename)) (os_makedirs env (dirname output_filename))) (\<lambda>_.
     io_bind (ext (OpenFile output_filename ''w'') (open_file env output_filename ''w'')) (\<lambda>_.
     io_bind (ext DbDescription (db_description env cursor)) (\<lambda>description.
     io_bind (io_lift (case description of
                 None \<Rightarrow> Inl (Exn ''TypeError'' (quote ''NoneType'' @ '' object is not iterable''))
               | Some names \<Rightarrow> Inr names)) (\<lambda>column_names.
     io_bind (json_dump env output_filename
                (case json_of_rows results of
                   Inl e \<Rightarrow> Inl e
                 | Inr r \<Rightarrow> Inr (JObj [(''query'', JStr query), (''results'', r),
                                       (''column_names'', JArr (map JStr column_names))]))) (\<lambda>_.
     io_bind (ext DbClose (db_close env conn)) (\<lambda>_.
     io_bind (logger_info (''Successfully executed query and saved results to '' @ output_filename)) (\<lambda>_.
       io_return results)))))))))))"
  unfolding B5_body_def Let_def by (rule refl)

lemma B5_connects_once:
  assumes g1: "fst (B12 (PyStr db_path) s) = Inr True"
    and g2: "fst (B12 (PyStr output_filename) s) = Inr True"
  shows "\<exists>evs. trace (snd (B5 env db_path query output_filename s)) =
           trace s @ DbConnect (if endswith db_path ''.db'' then Sqlite3 else DuckDB) db_path # evs \<and>
           \<not> list_ex is_db_connect evs"
proof -
  define eng where "eng = (if endswith db_path ''.db'' then Sqlite3 else DuckDB)"
  let ?P = "\<lambda>ev. \<not> is_db_connect ev"
  let ?h = "\<lambda>e. io_bind (logger_error (''Error executing SQL query: '' @ str_exn e)) (\<lambda>_.
              io_return (None :: sql_value list list option))"
  let ?rest = "\<lambda>conn. io_bind (ext DbCursor (db_cursor env conn)) (\<lambda>cursor.
      io_bind (ext (DbExecute query) (db_execute env cursor query)) (\<lambda>_.
      io_bind (ext DbFetchAll (db_fetchall env cursor)) (\<lambda>results.
      io_bind (ext (MakeDirs (dirname output_filename)) (os_makedirs env (dirname output_filename))) (\<lambda>_.
      io_bind (ext (OpenFile output_filename ''w'') (open_file env output_filename ''w'')) (\<lambda>_.
      io_bind (ext DbDescription (db_description env cursor)) (\<lambda>description.
      io_bind (io_lift (case description of
                 None \<Rightarrow> Inl (Exn ''TypeError'' (quote ''NoneType'' @ '' object is not iterable''))
               | Some names \<Rightarrow> Inr names)) (\<lambda>column_names.
      io_bind (json_dump env output_filename
                (case json_of_rows results of
                   Inl e \<Rightarrow> Inl e
                 | Inr r \<Rightarrow> Inr (JObj [(''query'', JStr query), (''results'', r),
                                       (''column_names'', JArr (map JStr column_names))]))) (\<lambda>_.
      io_bind (ext DbClose (db_close env conn)) (\<lambda>_.
      io_bind (logger_info (''Successfully executed query and saved results to '' @ output_filename)) (\<lambda>_.
        io_return results))))))))))"
  have body: "B5_body env db_path query output_filename =
                io_bind (ext (DbConnect eng db_path) (db_connect env eng db_path)) ?rest"
    unfolding eng_def by (rule B5_body_from_engine)
  have run: "B5 env db_path query output_filename s =
               try_except
                 (io_bind (io_bind (ext (DbConnect eng db_path) (db_connect env eng db_path)) ?rest)
                    (\<lambda>results. io_return (Some results))) ?h s"
    using g1 g2 by (simp only: B5_guard_pass body)
  obtain r w1 where c: "db_connect env eng db_path (world s) = (r, w1)"
    by (cases "db_connect env eng db_path (world s)")
  let ?s1 = "s\<lparr>world := w1, trace := trace s @ [DbConnect eng db_path]\<rparr>"
  have h: "\<And>e. emits ?P (?h e)"
    by (intro emits_bind emits_logger_error emits_return) simp
  have "\<exists>evs. trace (snd (B5 env db_path query output_filename s)) =
           trace s @ DbConnect eng db_path # evs \<and> \<not> list_ex is_db_connect evs"
  proof (cases r)
    case (Inl e)
    with c have "B5 env db_path query output_filename s = ?h e ?s1"
      by (simp add: run try_except_def io_bind_assoc io_bind_ext_Inl)
    moreover from h [of e] obtain evs where
      "trace (snd (?h e ?s1)) = trace ?s1 @ evs" "list_all ?P evs"
      unfolding emits_def by blast
    ultimately show ?thesis
      by (simp add: list_ex_iff list_all_iff)
  next
    case (Inr conn)
    let ?all = "try_except (io_bind (?rest conn) (\<lambda>results. io_return (Some results))) ?h"
    have "B5 env db_path query output_filename s = ?all ?s1"
      using c Inr
      by (simp add: run try_except_def io_bind_assoc io_bind_ext_Inr)
    moreover have "emits ?P ?all"
      by (intro emits_try emits_bind emits_after_connect emits_return h)
    then obtain evs where "trace (snd (?all ?s1)) = trace ?s1 @ evs" "list_all ?P evs"
      unfolding emits_def by blast
    ultimately show ?thesis
      by (simp add: list_ex_iff list_all_iff)
  qed
  then show ?thesis
    unfolding eng_def .
qed

lemma B5_body_success:
  assumes "eng = (if endswith db_path ''.db'' then Sqlite3 else DuckDB)"
    and "db_connect env eng db_path (world s) = (Inr conn, w1)"
    and "db_cursor env conn w1 = (Inr cursor, w2)"
    and "db_execute env cursor query w2 = (Inr (), w3)"
    and "db_fetchall env cursor w3 = (Inr results, w4)"
    and "os_makedirs env (dirname output_filename) w4 = (Inr (), w5)"
    and "open_file env output_filename ''w'' w5 = (Inr (), w6)"
    and "db_description env cursor w6 = (Inr (Some column_names), w7)"
    and "json_of_rows results = Inr r"
    and "file_write env output_filename
           (JsonIndent2 (JObj [(''query'', JStr query), (''results'', r),
                               (''column_names'', JArr (map JStr column_names))])) w7 = (Inr (), w8)"
    and "db_close env conn w8 = (Inr (), w9)"
  shows "B5_body env db_path query output_filename s =
           (Inr results,
            s\<lparr>world := w9,
              trace := trace s @
                [DbConnect eng db_path, DbCursor, DbExecute query, DbFetchAll,
                 MakeDirs (dirname output_filename), OpenFile output_filename ''w'', DbDescription,
                 WriteFile output_filename
                   (JsonIndent2 (JObj [(''query'', JStr query), (''results'', r),
                                       (''column_names'', JArr (map JStr column_names))])),
                 DbClose,
                 LogInfo (''Successfully executed query and saved results to '' @ output_filename)]\<rparr>)"
proof -
  have body: "B5_body env db_path query output_filename =
     io_bind (ext (DbConnect eng db_path) (db_connect env eng db_path)) (\<lambda>conn.
     io_bind (ext DbCursor (db_cursor env conn)) (\<lambda>cursor.
     io_bind (ext (DbExecute query) (db_execute env cursor query)) (\<lambda>_.
     io_bind (ext DbFetchAll (db_fetchall env cursor)) (\<lambda>results.
     io_bind (ext (MakeDirs (dirname output_filename)) (os_makedirs env (dirname output_filename))) (\<lambda>_.
     io_bind (ext (OpenFile output_filename ''w'') (open_file env output_filename ''w'')) (\<lambda>_.
     io_bind (ext DbDescription (db_description env cursor)) (\<lambda>description.
     io_bind (io_lift (case description of
                 None \<Rightarrow> Inl (Exn ''TypeError'' (quote ''NoneType'' @ '' object is not iterable''))
               | Some names \<Rightarrow> Inr names)) (\<lambda>column_names.
     io_bind (json_dump env output_filename
                (case json_of_rows results of
                   Inl e \<Rightarrow> Inl e
                 | Inr r \<Rightarrow> Inr (JObj [(''query'', JStr query), (''results'', r),
                                       (''column_names'', JArr (map JStr column_names))]))) (\<lambda>_.
     io_bind (ext DbClose (db_close env conn)) (\<lambda>_.
     io_bind (logger_info (''Successfully executed query and saved results to '' @ output_filename)) (\<lambda>_.
       io_return results)))))))))))"
    unfolding assms(1) by (rule B5_body_from_engine)
  show ?thesis
    using assms(2-)
    by (simp add: body io_bind_ext_Inr json_dump_def io_return_def)
qed

text \<open>
  C5. With both paths accepted by the guard, \<^verbatim>\<open>B5\<close> connects exactly
  once, to \<^verbatim>\<open>sqlite3\<close> when \<^verbatim>\<open>db_path\<close> ends with \<^verbatim>\<open>.db\<close> and to
  \<^verbatim>\<open>duckdb\<close> otherwise, and this is the first thing it does. When the
  engine, the directory and the file all answer without an exception, it
  writes to the output path one JSON object with the keys \<^verbatim>\<open>query\<close>,
  \<^verbatim>\<open>results\<close> and \<^verbatim>\<open>column_names\<close>, in that order, and returns the rows.
  For the query \<^verbatim>\<open>SELECT 1 AS x\<close> on a \<^verbatim>\<open>.db\<close> file, an engine that
  answers the row \<^verbatim>\<open>(1,)\<close> under the column \<^verbatim>\<open>x\<close> gives the results
  \<^verbatim>\<open>[[1]]\<close> and the column names \<^verbatim>\<open>["x"]\<close>.
\<close>

theorem B5_run_query:
  assumes g1: "fst (B12 (PyStr db_path) s) = Inr True"
    and g2: "fst (B12 (PyStr output_filename) s) = Inr True"
    and eng: "eng = (if endswith db_path ''.db'' then Sqlite3 else DuckDB)"
  shows "(eng = Sqlite3 \<longleftrightarrow> endswith db_path ''.db'') \<and>
         (\<exists>evs. trace (snd (B5 env db_path query output_filename s)) =
                  trace s @ DbConnect eng db_path # evs \<and> \<not> list_ex is_db_connect evs) \<and>
         (db_connect env eng db_path (world s) = (Inr conn, w1) \<and>
          db_cursor env conn w1 = (Inr cursor, w2) \<and>
          db_execute env cursor query w2 = (Inr (), w3) \<and>
          db_fetchall env cursor w3 = (Inr results, w4) \<and>
          os_makedirs env (dirname output_filename) w4 = (Inr (), w5) \<and>
          open_file env output_filename ''w'' w5 = (Inr (), w6) \<and>
          db_description env cursor w6 = (Inr (Some column_names), w7) \<and>
          json_of_rows results = Inr r \<and>
          file_write env output_filename
            (JsonIndent2 (JObj [(''query'', JStr query), (''results'', r),
                                (''column_names'', JArr (map JStr column_names))])) w7 = (Inr (), w8) \<and>
          db_close env conn w8 = (Inr (), w9) \<longrightarrow>
          B5 env db_path query output_filename s =
            (Inr (Some results),
             s\<lparr>world := w9,
               trace := trace s @
                 [DbConnect eng db_path, DbCursor, DbExecute query, DbFetchAll,
                  MakeDirs (dirname output_filename), OpenFile output_filename ''w'', DbDescription,
                  WriteFile output_filename
                    (JsonIndent2 (JObj [(''query'', JStr query), (''results'', r),
                                        (''column_names'', JArr (map JStr column_names))])),
                  DbClose,
                  LogInfo (''Successfully executed query and saved results to '' @ output_filename)]\<rparr>))"
proof (intro conjI impI)
  show "eng = Sqlite3 \<longleftrightarrow> endswith db_path ''.db''"
    by (simp add: eng)
  show "\<exists>evs. trace (snd (B5 env db_path query output_filename s)) =
                  trace s @ DbConnect eng db_path # evs \<and> \<not> list_ex is_db_connect evs"
    unfolding eng by (rule B5_connects_once [OF g1 g2])
next
  assume steps: "db_connect env eng db_path (world s) = (Inr conn, w1) \<and>
          db_cursor env conn w1 = (Inr cursor, w2) \<and>
          db_execute env cursor query w2 = (Inr (), w3) \<and>
          db_fetchall env cursor w3 = (Inr results, w4) \<and>
          os_makedirs env (dirname output_filename) w4 = (Inr (), w5) \<and>
          open_file env output_filename ''w'' w5 = (Inr (), w6) \<and>
          db_description env cursor w6 = (Inr (Some column_names), w7) \<and>
          json_of_rows results = Inr r \<and>
          file_write env output_filename
            (JsonIndent2 (JObj [(''query'', JStr query), (''results'', r),
                                (''column_names'', JArr (map JStr column_names))])) w7 = (Inr (), w8) \<and>
          db_close env conn w8 = (Inr (), w9)"
  have body: "B5_body env db_path query output_filename s =
           (Inr results,
            s\<lparr>world := w9,
              trace := trace s @
                [DbConnect eng db_path, DbCursor, DbExecute query, DbFetchAll,
                 MakeDirs (dirname output_filename), OpenFile output_filename ''w'', DbDescription,
                 WriteFile output_filename
                   (JsonIndent2 (JObj [(''query'', JStr query), (''results'', r),
                                       (''column_names'', JArr (map JStr column_names))])),
                 DbClose,
                 LogInfo (''Successfully executed query and saved results to '' @ output_filename)]\<rparr>)"
    using steps
    by (intro B5_body_success [where conn = conn and cursor = cursor and ?w1.0 = w1
          and ?w2.0 = w2 and ?w3.0 = w3 and ?w4.0 = w4 and ?w5.0 = w5 and ?w6.0 = w6
          and ?w7.0 = w7 and ?w8.0 = w8, OF eng]) simp_all
  show "B5 env db_path query output_filename s =
            (Inr (Some results),
             s\<lparr>world := w9,
               trace := trace s @
                 [DbConnect eng db_path, DbCursor, DbExecute query, DbFetchAll,
                  MakeDirs (dirname output_filename), OpenFile output_filename ''w'', DbDescription,
                  WriteFile output_filename
                    (JsonIndent2 (JObj [(''query'', JStr query), (''results'', r),
                                        (''column_names'', JArr (map JStr column_names))])),
                  DbClose,
                  LogInfo (''Successfully executed query and saved results to '' @ output_filename)]\<rparr>)"
    by (simp add: B5_guard_pass [OF g1 g2] try_except_def io_bind_def body io_return_def)
qed

theorem B5_run_query_witness:
  "fst (B12 (PyStr ''/data/app.db'') demo_state) = Inr True \<and>
   fst (B12 (PyStr ''/data/out/result.json'') demo_state) = Inr True \<and>
   endswith ''/data/app.db'' ''.db'' \<and>
   B5 demo_env ''/data/app.db'' ''SELECT 1 AS x'' ''/data/out/result.json'' demo_state =
     (Inr (Some [[SqlInt 1]]),
      \<lparr>world = [(''/data/out/result.json'',
                  JsonIndent2 (JObj [(''query'', JStr ''SELECT 1 AS x''),
                                     (''results'', JArr [JArr [JInt 1]]),
                                     (''column_names'', JArr [JStr ''x''])])),
                (''/data/docs/readme.md'', Text ''# Title'')],
       trace = [DbConnect Sqlite3 ''/data/app.db'', DbCursor, DbExecute ''SELECT 1 AS x'', DbFetchAll,
                MakeDirs ''/data/out'', OpenFile ''/data/out/result.json'' ''w'', DbDescription,
                WriteFile ''/data/out/result.json''
                  (JsonIndent2 (JObj [(''query'', JStr ''SELECT 1 AS x''),
                                      (''results'', JArr [JArr [JInt 1]]),
                                      (''column_names'', JArr [JStr ''x''])])),
                DbClose,
                LogInfo ''Successfully executed query and saved results to /data/out/result.json'']\<rparr>)"
  using B5_run_query [where env = demo_env and s = demo_state and eng = Sqlite3
          and db_path = "''/data/app.db''" and query = "''SELECT 1 AS x''"
          and output_filename = "''/data/out/result.json''"
          and conn = 0 and cursor = 0 and results = "[[SqlInt 1]]" and column_names = "[''x'']"
          and r = "JArr [JArr [JInt 1]]"
          and ?w1.0 = "world demo_state" and ?w2.0 = "world demo_state"
          and ?w3.0 = "world demo_state" and ?w4.0 = "world demo_state"
          and ?w5.0 = "world demo_state" and ?w6.0 = "world demo_state"
          and ?w7.0 = "world demo_state"
          and ?w8.0 = "(''/data/out/result.json'',
                  JsonIndent2 (JObj [(''query'', JStr ''SELECT 1 AS x''),
                                     (''results'', JArr [JArr [JInt 1]]),
                                     (''column_names'', JArr [JStr ''x''])])) # world demo_state"
          and ?w9.0 = "(''/data/out/result.json'',
                  JsonIndent2 (JObj [(''query'', JStr ''SELECT 1 AS x''),
                                     (''results'', JArr [JArr [JInt 1]]),
                                     (''column_names'', JArr [JStr ''x''])])) # world demo_state"]
  by (simp add: demo_env_def demo_state_def B12_PyStr path_simps dirname_def endswith_def
        json_of_rows_def json_of_row_def)



end
